theory Spec2Isabelle
  imports Main "HOL-Library.Sublist"
begin

section \<open>Data model of the live tracker client\<close>

text \<open>
  The client keeps the fleet in the React state \<^verbatim>\<open>buses\<close>, an array of plain
  objects received as JSON. A bus object is read through the properties
  \<^verbatim>\<open>_id\<close>, \<^verbatim>\<open>routeNumber\<close>, \<^verbatim>\<open>registrationNumber\<close>, \<^verbatim>\<open>from\<close>, \<^verbatim>\<open>to\<close>,
  \<^verbatim>\<open>currentStop\<close>, \<^verbatim>\<open>nextStop\<close>, \<^verbatim>\<open>status\<close>, \<^verbatim>\<open>eta\<close>, \<^verbatim>\<open>currentPassengers\<close>
  and \<^verbatim>\<open>capacity\<close>.

  A property that the code compares, tests for truthiness or only prints may be
  absent (\<^verbatim>\<open>undefined\<close>), so it is an \<open>option\<close>. The properties
  \<^verbatim>\<open>routeNumber\<close>, \<^verbatim>\<open>from\<close> and \<^verbatim>\<open>to\<close> are dereferenced without a guard
  (\<^verbatim>\<open>bus.routeNumber.toLowerCase()\<close>): the code takes them to be strings that are
  always there, and so does the record. \<^verbatim>\<open>_id\<close>, \<^verbatim>\<open>from\<close> and \<^verbatim>\<open>to\<close> are
  renamed, since they are not Isabelle identifiers.
\<close>

record bus =
  bus_id :: "string option"
  routeNumber :: string
  registrationNumber :: "string option"
  from_label :: string
  to_label :: string
  currentStop :: "string option"
  nextStop :: "string option"
  status :: "string option"
  eta :: "string option"
  currentPassengers :: "int option"
  capacity :: "int option"

section \<open>The \<^verbatim>\<open>busLocationUpdate\<close> handler\<close>

text \<open>
  \<^verbatim>\<open>
  newSocket.on('busLocationUpdate', (updatedBus) => {
    setBuses(prevBuses =>
      prevBuses.map(bus =>
        bus._id === updatedBus._id ? updatedBus : bus
      )
    );
  });
  \<close>
  The handler is the state updater handed to \<^verbatim>\<open>setBuses\<close>: it takes the previous
  array and returns the next one. Strict equality on two strings, or on two
  \<^verbatim>\<open>undefined\<close>, is equality of the \<open>option\<close> values. The handler has no other
  branch: it signals no error and returns nothing besides the new array.
\<close>

definition busLocationUpdate :: "bus \<Rightarrow> bus list \<Rightarrow> bus list" where
  "busLocationUpdate updatedBus prevBuses =
     map (\<lambda>b. if bus_id b = bus_id updatedBus then updatedBus else b) prevBuses"

section \<open>Search and route filter\<close>

text \<open>
  JavaScript strings are modelled as \<open>string\<close>. \<^verbatim>\<open>String.prototype.toLowerCase\<close>
  is a built-in of the runtime whose case mapping of the letters outside \<^verbatim>\<open>A\<close> to
  \<^verbatim>\<open>Z\<close> is a table that the source does not hold, so the filter takes it as the
  parameter \<open>toLowerCase\<close>. \<^verbatim>\<open>s.includes(q)\<close> holds when \<^verbatim>\<open>q\<close> occurs in
  \<^verbatim>\<open>s\<close> as a contiguous run, the empty string occurring everywhere.
\<close>

fun str_includes :: "string \<Rightarrow> string \<Rightarrow> bool" where
  "str_includes [] q = (q = [])"
| "str_includes (c # cs) q = (prefix q (c # cs) \<or> str_includes cs q)"

text \<open>
  \<^verbatim>\<open>
  const filteredBuses = buses.filter(bus =>
    (selectedRoute === '' || bus.routeNumber === selectedRoute) &&
    (searchQuery === '' ||
     bus.routeNumber.toLowerCase().includes(searchQuery.toLowerCase()) ||
     bus.from.toLowerCase().includes(searchQuery.toLowerCase()) ||
     bus.to.toLowerCase().includes(searchQuery.toLowerCase()) ||
     (bus.currentStop && bus.currentStop.toLowerCase().includes(searchQuery.toLowerCase()))
    )
  );
  \<close>
  The guard \<^verbatim>\<open>bus.currentStop && ...\<close> is falsy when the stop is absent or the
  empty string.
\<close>

definition matchesFilter ::
  "(string \<Rightarrow> string) \<Rightarrow> string \<Rightarrow> string \<Rightarrow> bus \<Rightarrow> bool" where
  "matchesFilter toLowerCase selectedRoute searchQuery b =
     ((selectedRoute = [] \<or> routeNumber b = selectedRoute) \<and>
      (searchQuery = [] \<or>
       str_includes (toLowerCase (routeNumber b)) (toLowerCase searchQuery) \<or>
       str_includes (toLowerCase (from_label b)) (toLowerCase searchQuery) \<or>
       str_includes (toLowerCase (to_label b)) (toLowerCase searchQuery) \<or>
       (case currentStop b of
          None \<Rightarrow> False
        | Some stop \<Rightarrow> stop \<noteq> [] \<and> str_includes (toLowerCase stop) (toLowerCase searchQuery))))"

definition filteredBuses ::
  "(string \<Rightarrow> string) \<Rightarrow> string \<Rightarrow> string \<Rightarrow> bus list \<Rightarrow> bus list" where
  "filteredBuses toLowerCase selectedRoute searchQuery buses =
     filter (matchesFilter toLowerCase selectedRoute searchQuery) buses"

section \<open>Live statistics\<close>

text \<open>
  The three counters of the \<^verbatim>\<open>Live Stats\<close> panel: \<^verbatim>\<open>buses.length\<close>,
  \<^verbatim>\<open>buses.filter(b => b.status === 'On Time').length\<close> and
  \<^verbatim>\<open>buses.filter(b => b.status === 'Delayed').length\<close>. An absent status is
  strictly equal to neither literal.
\<close>

definition activeBuses :: "bus list \<Rightarrow> nat" where
  "activeBuses buses = length buses"

definition onTimeCount :: "bus list \<Rightarrow> nat" where
  "onTimeCount buses = length (filter (\<lambda>b. status b = Some ''On Time'') buses)"

definition delayedCount :: "bus list \<Rightarrow> nat" where
  "delayedCount buses = length (filter (\<lambda>b. status b = Some ''Delayed'') buses)"

section \<open>The vehicle state store\<close>

text \<open>
  No file of the source holds a sequence number, a diff event or a server-side
  store: the server file present only configures the web server and connects the
  database, and the routes it loads are not among the sources. The definitions of
  this section are therefore written from section 4.1 of the specification.
\<close>

text \<open>
  Modelled from the spec: the DiffEvent, ``tagged as Upsert(Vehicle) or
  Remove(identifier); carries a monotonically increasing per-store sequence number''.
\<close>

datatype change = Upsert bus | Remove "string option"

record diff_event =
  seq :: nat
  change :: change

text \<open>
  Modelled from the spec: the VehicleStateStore, the ordered vehicles with the
  sequence number of the last event. The store starts empty at sequence number 0.
\<close>

record store =
  vehicles :: "bus list"
  sequenceNumber :: nat

definition empty_store :: store where
  "empty_store = \<lparr>vehicles = [], sequenceNumber = 0\<rparr>"


text \<open>
  Modelled from the spec: \<^verbatim>\<open>apply(update) -> (newSequenceNumber, DiffEvent)\<close>, the
  store's only mutator. It registers a vehicle on the first update that names a new
  identifier, merges an update onto the vehicle already stored under its
  identifier, increments the sequence number by one and returns the new number with
  the diff event that carries it. How the fields of a partial update are merged onto
  the stored vehicle is the parameter \<open>merge\<close>. In section 4.1 \<^verbatim>\<open>apply\<close> has no
  error result, so every call is a successful one; rejecting an update is the work
  of the ingestor, before the store is reached.
\<close>

definition store_apply ::
  "(bus \<Rightarrow> bus \<Rightarrow> bus) \<Rightarrow> bus \<Rightarrow> store \<Rightarrow> store \<times> nat \<times> diff_event" where
  "store_apply merge u st =
     (let n = sequenceNumber st + 1;
          v = (case find (\<lambda>b. bus_id b = bus_id u) (vehicles st) of
                 None \<Rightarrow> u
               | Some old \<Rightarrow> merge old u);
          vs = (case find (\<lambda>b. bus_id b = bus_id u) (vehicles st) of
                  None \<Rightarrow> vehicles st @ [v]
                | Some old \<Rightarrow> map (\<lambda>b. if bus_id b = bus_id u then v else b) (vehicles st))
      in (\<lparr>vehicles = vs, sequenceNumber = n\<rparr>, n, \<lparr>seq = n, change = Upsert v\<rparr>))"

text \<open>
  Modelled from the spec: a run of \<^verbatim>\<open>apply\<close> calls, one per update in the order
  given, each on the store the call before it left.
\<close>

fun apply_all :: "(bus \<Rightarrow> bus \<Rightarrow> bus) \<Rightarrow> bus list \<Rightarrow> store \<Rightarrow> store" where
  "apply_all merge [] st = st"
| "apply_all merge (u # us) st = apply_all merge us (fst (store_apply merge u st))"

section \<open>Sample fleet and sample events\<close>

definition bus_534 :: bus where
  "bus_534 = \<lparr>bus_id = Some ''b1'', routeNumber = ''534'',
     registrationNumber = Some ''DL1PC1234'', from_label = ''Anand Vihar'',
     to_label = ''Mehrauli'', currentStop = Some ''ITO'',
     nextStop = Some ''Pragati Maidan'', status = Some ''On Time'',
     eta = Some ''5 min'', currentPassengers = Some 10, capacity = Some 40\<rparr>"

definition bus_717 :: bus where
  "bus_717 = \<lparr>bus_id = Some ''b2'', routeNumber = ''717'',
     registrationNumber = Some ''DL1PC5678'', from_label = ''Dwarka'',
     to_label = ''Kashmere Gate'', currentStop = None,
     nextStop = Some ''Rajouri Garden'', status = Some ''Delayed'',
     eta = None, currentPassengers = Some 32, capacity = Some 40\<rparr>"

text \<open>Bus 534 reported late at its next stop.\<close>

definition update_delayed :: bus where
  "update_delayed = bus_534\<lparr>currentStop := Some ''Pragati Maidan'',
     nextStop := Some ''Mandi House'', status := Some ''Delayed''\<rparr>"

text \<open>Bus 534 with a status outside the two known values.\<close>

definition update_unknown :: bus where
  "update_unknown = bus_534\<lparr>status := Some ''Unknown''\<rparr>"

text \<open>Bus 534 with five passengers more than its capacity of 40.\<close>

definition update_overfull :: bus where
  "update_overfull = bus_534\<lparr>currentPassengers := Some 45\<rparr>"

text \<open>A bus the client has not fetched.\<close>

definition update_new :: bus where
  "update_new = bus_717\<lparr>bus_id := Some ''b3'', routeNumber := ''620''\<rparr>"

text \<open>Records whose identifier is the empty string, and one with no identifier.\<close>

definition bus_blank_id :: bus where
  "bus_blank_id = bus_717\<lparr>bus_id := Some []\<rparr>"

definition bus_no_id :: bus where
  "bus_no_id = bus_717\<lparr>bus_id := None\<rparr>"

definition update_blank_id :: bus where
  "update_blank_id = bus_534\<lparr>bus_id := Some []\<rparr>"

definition update_no_id :: bus where
  "update_no_id = bus_534\<lparr>bus_id := None, status := Some ''Delayed''\<rparr>"

text \<open>A bus whose status is neither of the two counted values.\<close>

definition bus_breakdown :: bus where
  "bus_breakdown = bus_717\<lparr>bus_id := Some ''b4'', status := Some ''Breakdown''\<rparr>"

text \<open>
  Bus 534 reported late between two stops, the current stop left out of the update;
  a merge that keeps the stored current stop when the update leaves it out; and a
  store that holds the two sample buses after seven events.
\<close>

definition update_between_stops :: bus where
  "update_between_stops = bus_534\<lparr>currentStop := None, status := Some ''Delayed''\<rparr>"


definition store_after_seven :: store where
  "store_after_seven = \<lparr>vehicles = [bus_534, bus_717], sequenceNumber = 7\<rparr>"

section \<open>Properties of the handler\<close>

lemma busLocationUpdate_length:
  "length (busLocationUpdate u buses) = length buses"
  by (simp add: busLocationUpdate_def)

lemma busLocationUpdate_ids:
  "map bus_id (busLocationUpdate u buses) = map bus_id buses"
  by (induction buses) (simp_all add: busLocationUpdate_def)

lemma busLocationUpdate_nth:
  "i < length buses \<Longrightarrow>
     busLocationUpdate u buses ! i
       = (if bus_id (buses ! i) = bus_id u then u else buses ! i)"
  by (simp add: busLocationUpdate_def)

lemma busLocationUpdate_no_match:
  "bus_id u \<notin> bus_id ` set buses \<Longrightarrow> busLocationUpdate u buses = buses"
  by (induction buses) (auto simp add: busLocationUpdate_def)


lemmas sample_defs =
  bus_534_def bus_717_def update_delayed_def update_unknown_def update_overfull_def
  update_new_def bus_blank_id_def bus_no_id_def update_blank_id_def update_no_id_def bus_breakdown_def
  update_between_stops_def store_after_seven_def

text \<open>
  Claim C8. Applying an update event never deletes a vehicle: the new list has the
  length of the old one and the same identifiers in the same order, every bus whose
  identifier differs from the update's is unchanged, and every bus whose identifier
  is the update's is replaced by the updated record.
\<close>

theorem busLocationUpdate_frame:
  "length (busLocationUpdate u buses) = length buses
   \<and> map bus_id (busLocationUpdate u buses) = map bus_id buses
   \<and> (\<forall>i < length buses.
        (bus_id (buses ! i) \<noteq> bus_id u \<longrightarrow> busLocationUpdate u buses ! i = buses ! i)
      \<and> (bus_id (buses ! i) = bus_id u \<longrightarrow> busLocationUpdate u buses ! i = u))"
  by (simp add: busLocationUpdate_length busLocationUpdate_ids busLocationUpdate_nth)

theorem busLocationUpdate_frame_witness:
  "length (busLocationUpdate update_delayed [bus_534, bus_717]) = 2
   \<and> map bus_id (busLocationUpdate update_delayed [bus_534, bus_717])
       = [Some ''b1'', Some ''b2'']
   \<and> bus_id ([bus_534, bus_717] ! 0) = bus_id update_delayed
   \<and> busLocationUpdate update_delayed [bus_534, bus_717] ! 0 = update_delayed
   \<and> bus_id ([bus_534, bus_717] ! 1) \<noteq> bus_id update_delayed
   \<and> busLocationUpdate update_delayed [bus_534, bus_717] ! 1 = bus_717"
proof -
  have ids: "bus_id ([bus_534, bus_717] ! 0) = bus_id update_delayed"
    "bus_id ([bus_534, bus_717] ! 1) \<noteq> bus_id update_delayed"
    "map bus_id [bus_534, bus_717] = [Some ''b1'', Some ''b2'']"
    by (simp_all add: sample_defs)
  note frame = busLocationUpdate_frame [of update_delayed "[bus_534, bus_717]"]
  from frame have len: "length (busLocationUpdate update_delayed [bus_534, bus_717]) = 2"
    by simp
  from frame have m: "map bus_id (busLocationUpdate update_delayed [bus_534, bus_717])
      = map bus_id [bus_534, bus_717]"
    by simp
  from frame have at0: "bus_id ([bus_534, bus_717] ! 0) = bus_id update_delayed \<longrightarrow>
      busLocationUpdate update_delayed [bus_534, bus_717] ! 0 = update_delayed"
    by simp
  from frame have "1 < length [bus_534, bus_717] \<longrightarrow>
      (bus_id ([bus_534, bus_717] ! 1) \<noteq> bus_id update_delayed \<longrightarrow>
       busLocationUpdate update_delayed [bus_534, bus_717] ! 1 = [bus_534, bus_717] ! 1)"
    by blast
  then have at1: "busLocationUpdate update_delayed [bus_534, bus_717] ! 1 = bus_717"
    using ids(2) by simp
  show ?thesis using len m at0 at1 ids by simp
qed

section \<open>Updates the handler does not check\<close>

text \<open>
  The handler compares identifiers and nothing else. It reads neither the status
  nor the passenger figures of the event, it has no error result, and it never
  lengthens the list. The theorems of this section state what it does on the events
  that an ingestion step with validation would treat differently.
\<close>

lemma busLocationUpdate_match:
  "i < length buses \<Longrightarrow> bus_id (buses ! i) = bus_id u \<Longrightarrow> busLocationUpdate u buses ! i = u"
  by (simp add: busLocationUpdate_nth)

lemma busLocationUpdate_other:
  "i < length buses \<Longrightarrow> bus_id (buses ! i) \<noteq> bus_id u \<Longrightarrow>
     busLocationUpdate u buses ! i = buses ! i"
  by (simp add: busLocationUpdate_nth)

text \<open>
  Claim C3, as stated, fails: the event for bus \<^verbatim>\<open>b1\<close> with status
  \<^verbatim>\<open>'Unknown'\<close> is applied, and the list then holds that status.
\<close>

theorem unknown_status_counterexample:
  "status update_unknown = Some ''Unknown''
   \<and> busLocationUpdate update_unknown [bus_534, bus_717] = [update_unknown, bus_717]
   \<and> busLocationUpdate update_unknown [bus_534, bus_717] \<noteq> [bus_534, bus_717]
   \<and> map status (busLocationUpdate update_unknown [bus_534, bus_717])
       = [Some ''Unknown'', Some ''Delayed'']"
  by (simp add: busLocationUpdate_def sample_defs)

text \<open>
  Claim C3, amended. For an update whose status is present and is neither
  \<^verbatim>\<open>'On Time'\<close> nor \<^verbatim>\<open>'Delayed'\<close>, the handler applies the update as it applies
  any other: a bus that carries the update's identifier is replaced by the update,
  so it then holds the unrecognised status as sent, and a bus with another
  identifier is unchanged. When no bus carries the identifier the list is unchanged.
\<close>

theorem unknown_status_applied:
  assumes "status u = Some s" and "s \<noteq> ''On Time''" and "s \<noteq> ''Delayed''"
    and "i < length buses"
  shows "(bus_id (buses ! i) = bus_id u \<longrightarrow>
            busLocationUpdate u buses ! i = u
          \<and> status (busLocationUpdate u buses ! i) = Some s)
       \<and> (bus_id (buses ! i) \<noteq> bus_id u \<longrightarrow> busLocationUpdate u buses ! i = buses ! i)
       \<and> (bus_id u \<notin> set (map bus_id buses) \<longrightarrow> busLocationUpdate u buses = buses)"
  using assms
  by (simp add: busLocationUpdate_match busLocationUpdate_other busLocationUpdate_no_match)

theorem unknown_status_applied_witness:
  "status update_unknown = Some ''Unknown'' \<and> ''Unknown'' \<noteq> ''On Time''
   \<and> ''Unknown'' \<noteq> ''Delayed'' \<and> 0 < length [bus_534, bus_717]
   \<and> bus_id ([bus_534, bus_717] ! 0) = bus_id update_unknown
   \<and> status (busLocationUpdate update_unknown [bus_534, bus_717] ! 0) = Some ''Unknown''
   \<and> bus_id ([bus_534, bus_717] ! 1) \<noteq> bus_id update_unknown
   \<and> busLocationUpdate update_unknown [bus_534, bus_717] ! 1 = bus_717
   \<and> bus_id update_unknown \<notin> set (map bus_id [bus_717])
   \<and> busLocationUpdate update_unknown [bus_717] = [bus_717]"
proof -
  have h: "status update_unknown = Some ''Unknown''" "''Unknown'' \<noteq> ''On Time''"
    "''Unknown'' \<noteq> ''Delayed''"
    by (simp_all add: sample_defs)
  have ids: "bus_id ([bus_534, bus_717] ! 0) = bus_id update_unknown"
    "bus_id ([bus_534, bus_717] ! 1) \<noteq> bus_id update_unknown"
    "bus_id update_unknown \<notin> set (map bus_id [bus_717])"
    by (simp_all add: sample_defs)
  have l: "0 < length [bus_534, bus_717]" "1 < length [bus_534, bus_717]"
    "0 < length [bus_717]"
    by simp_all
  have "status (busLocationUpdate update_unknown [bus_534, bus_717] ! 0) = Some ''Unknown''"
    using unknown_status_applied [OF h l(1)] ids(1) by blast
  moreover have "busLocationUpdate update_unknown [bus_534, bus_717] ! 1 = [bus_534, bus_717] ! 1"
    using unknown_status_applied [OF h l(2)] ids(2) by blast
  moreover have "busLocationUpdate update_unknown [bus_717] = [bus_717]"
    using unknown_status_applied [OF h l(3)] ids(3) by blast
  ultimately show ?thesis using h ids by simp
qed

text \<open>
  Claim C4, as stated, fails: the event for bus \<^verbatim>\<open>b1\<close> with 45 passengers and
  capacity 40 leaves 45 in the list, not the clamped 40.
\<close>

theorem overfull_counterexample:
  "currentPassengers update_overfull = Some 45 \<and> capacity update_overfull = Some 40
   \<and> busLocationUpdate update_overfull [bus_534, bus_717] = [update_overfull, bus_717]
   \<and> map currentPassengers (busLocationUpdate update_overfull [bus_534, bus_717])
       = [Some 45, Some 32]
   \<and> currentPassengers (busLocationUpdate update_overfull [bus_534, bus_717] ! 0)
       \<noteq> Some (max 0 (min 45 40))"
  by (simp add: busLocationUpdate_def sample_defs)

text \<open>
  Claim C4, amended. For an update in which passenger count and capacity are both
  present, a bus that carries the update's identifier is replaced by the update
  record itself, every field as sent: the update is applied, not rejected, and the
  stored passenger count and capacity are the update's own, unclamped. The stored
  count equals \<open>max 0 (min count capacity)\<close> exactly when the count lies between 0 and
  the capacity or is 0.
\<close>

theorem passenger_count_stored_as_sent:
  assumes "currentPassengers u = Some c" and "capacity u = Some cap"
    and "i < length buses" and "bus_id (buses ! i) = bus_id u"
  shows "busLocationUpdate u buses ! i = u
       \<and> currentPassengers (busLocationUpdate u buses ! i) = Some c
       \<and> capacity (busLocationUpdate u buses ! i) = Some cap
       \<and> ((currentPassengers (busLocationUpdate u buses ! i) = Some (max 0 (min c cap)))
            = (0 \<le> c \<and> c \<le> cap \<or> c = 0))"
proof -
  from assms(3,4) have "busLocationUpdate u buses ! i = u"
    by (rule busLocationUpdate_match)
  moreover have "(c = max 0 (min c cap)) = (0 \<le> c \<and> c \<le> cap \<or> c = 0)"
    by (auto simp add: max_def min_def)
  ultimately show ?thesis using assms(1,2) by simp
qed

theorem passenger_count_stored_as_sent_witness:
  "currentPassengers update_overfull = Some 45 \<and> capacity update_overfull = Some 40
   \<and> 0 < length [bus_534, bus_717]
   \<and> bus_id ([bus_534, bus_717] ! 0) = bus_id update_overfull
   \<and> currentPassengers (busLocationUpdate update_overfull [bus_534, bus_717] ! 0) = Some 45
   \<and> currentPassengers (busLocationUpdate update_overfull [bus_534, bus_717] ! 0)
       \<noteq> Some (max 0 (min 45 40))
   \<and> currentPassengers update_delayed = Some 10 \<and> capacity update_delayed = Some 40
   \<and> currentPassengers (busLocationUpdate update_delayed [bus_534, bus_717] ! 0)
       = Some (max 0 (min 10 40))"
proof -
  have over: "currentPassengers update_overfull = Some 45" "capacity update_overfull = Some 40"
    "0 < length [bus_534, bus_717]"
    "bus_id ([bus_534, bus_717] ! 0) = bus_id update_overfull"
    by (simp_all add: sample_defs)
  have within: "currentPassengers update_delayed = Some 10" "capacity update_delayed = Some 40"
    "0 < length [bus_534, bus_717]"
    "bus_id ([bus_534, bus_717] ! 0) = bus_id update_delayed"
    by (simp_all add: sample_defs)
  from passenger_count_stored_as_sent [OF over]
  have "currentPassengers (busLocationUpdate update_overfull [bus_534, bus_717] ! 0) = Some 45"
    and "currentPassengers (busLocationUpdate update_overfull [bus_534, bus_717] ! 0)
      \<noteq> Some (max 0 (min 45 40))"
    by force+
  moreover from passenger_count_stored_as_sent [OF within]
  have "currentPassengers (busLocationUpdate update_delayed [bus_534, bus_717] ! 0)
      = Some (max 0 (min 10 40))"
    by force
  ultimately show ?thesis using over within by simp
qed

text \<open>
  Claim C5, as stated, fails: the event for bus \<^verbatim>\<open>b3\<close>, which the list does not
  hold, creates no vehicle. The list stays as it was, on the empty list as well, and
  the identifier is still not found.
\<close>

theorem new_identifier_counterexample:
  "bus_id update_new = Some ''b3''
   \<and> map bus_id [bus_534, bus_717] = [Some ''b1'', Some ''b2'']
   \<and> busLocationUpdate update_new [bus_534, bus_717] = [bus_534, bus_717]
   \<and> map bus_id (busLocationUpdate update_new [bus_534, bus_717]) = [Some ''b1'', Some ''b2'']
   \<and> update_new \<notin> set (busLocationUpdate update_new [bus_534, bus_717])
   \<and> busLocationUpdate update_new [] = []"
  by (simp add: busLocationUpdate_def sample_defs)

text \<open>
  Claim C5, amended. For an update with a present, non-empty identifier that no bus
  of the list carries, the handler registers nothing: the list is unchanged, the
  update is not in it, and a lookup of the identifier in it still finds nothing.
\<close>

theorem new_identifier_ignored:
  assumes "bus_id u = Some i" and "i \<noteq> []" and "Some i \<notin> set (map bus_id buses)"
  shows "busLocationUpdate u buses = buses
       \<and> u \<notin> set (busLocationUpdate u buses)
       \<and> Some i \<notin> set (map bus_id (busLocationUpdate u buses))
       \<and> find (\<lambda>b. bus_id b = Some i) (busLocationUpdate u buses) = None"
proof -
  from assms(1,3) have "bus_id u \<notin> bus_id ` set buses" by simp
  then have same: "busLocationUpdate u buses = buses"
    by (rule busLocationUpdate_no_match)
  from assms(3) have "\<forall>b \<in> set buses. bus_id b \<noteq> Some i" by force
  then have "find (\<lambda>b. bus_id b = Some i) buses = None"
    unfolding find_None_iff by blast
  moreover from assms(1,3) have "u \<notin> set buses" by force
  ultimately show ?thesis using same assms(3) by simp
qed

theorem new_identifier_ignored_witness:
  "bus_id update_new = Some ''b3'' \<and> ''b3'' \<noteq> []
   \<and> Some ''b3'' \<notin> set (map bus_id [bus_534, bus_717])
   \<and> busLocationUpdate update_new [bus_534, bus_717] = [bus_534, bus_717]
   \<and> find (\<lambda>b. bus_id b = Some ''b3'') (busLocationUpdate update_new [bus_534, bus_717]) = None"
proof -
  have h: "bus_id update_new = Some ''b3''" "''b3'' \<noteq> []"
    "Some ''b3'' \<notin> set (map bus_id [bus_534, bus_717])"
    by (simp_all add: sample_defs)
  from new_identifier_ignored [OF h] h show ?thesis by blast
qed

text \<open>
  Claim C6, as stated, fails: nothing is rejected. An event whose identifier is the
  empty string replaces the stored bus whose identifier is the empty string, and an
  event with no identifier replaces the stored bus with no identifier.
\<close>

theorem blank_identifier_counterexample:
  "bus_id update_blank_id = Some []
   \<and> busLocationUpdate update_blank_id [bus_534, bus_blank_id] = [bus_534, update_blank_id]
   \<and> busLocationUpdate update_blank_id [bus_534, bus_blank_id] \<noteq> [bus_534, bus_blank_id]
   \<and> bus_id update_no_id = None
   \<and> busLocationUpdate update_no_id [bus_534, bus_no_id] = [bus_534, update_no_id]
   \<and> busLocationUpdate update_no_id [bus_534, bus_no_id] \<noteq> [bus_534, bus_no_id]"
  by (simp add: busLocationUpdate_def sample_defs)

text \<open>
  Claim C6, amended. The handler has no error result and rejects no event. For an
  update whose identifier is missing or empty, the list is unchanged when every bus
  in it has a present, non-empty identifier; a bus stored under the same missing or
  empty identifier is replaced by the update, and every other bus is unchanged.
\<close>

theorem blank_identifier_update:
  assumes "bus_id u = None \<or> bus_id u = Some []"
  shows "((\<forall>b \<in> set buses. \<exists>i. bus_id b = Some i \<and> i \<noteq> [])
            \<longrightarrow> busLocationUpdate u buses = buses)
       \<and> (\<forall>k < length buses.
            (bus_id (buses ! k) = bus_id u \<longrightarrow> busLocationUpdate u buses ! k = u)
          \<and> (bus_id (buses ! k) \<noteq> bus_id u \<longrightarrow> busLocationUpdate u buses ! k = buses ! k))"
proof (intro conjI impI allI)
  assume wf: "\<forall>b \<in> set buses. \<exists>i. bus_id b = Some i \<and> i \<noteq> []"
  have "bus_id u \<notin> bus_id ` set buses"
  proof
    assume "bus_id u \<in> bus_id ` set buses"
    then obtain b where "b \<in> set buses" "bus_id b = bus_id u" by auto
    with wf assms show False by auto
  qed
  then show "busLocationUpdate u buses = buses"
    by (rule busLocationUpdate_no_match)
next
  fix k
  assume "k < length buses" "bus_id (buses ! k) = bus_id u"
  then show "busLocationUpdate u buses ! k = u" by (rule busLocationUpdate_match)
next
  fix k
  assume "k < length buses" "bus_id (buses ! k) \<noteq> bus_id u"
  then show "busLocationUpdate u buses ! k = buses ! k" by (rule busLocationUpdate_other)
qed

theorem blank_identifier_update_witness:
  "(bus_id update_no_id = None \<or> bus_id update_no_id = Some [])
   \<and> map bus_id [bus_534, bus_717] = [Some ''b1'', Some ''b2'']
   \<and> busLocationUpdate update_no_id [bus_534, bus_717] = [bus_534, bus_717]
   \<and> (bus_id update_blank_id = None \<or> bus_id update_blank_id = Some [])
   \<and> 1 < length [bus_534, bus_blank_id]
   \<and> bus_id ([bus_534, bus_blank_id] ! 1) = bus_id update_blank_id
   \<and> busLocationUpdate update_blank_id [bus_534, bus_blank_id] ! 1 = update_blank_id
   \<and> bus_id ([bus_534, bus_blank_id] ! 0) \<noteq> bus_id update_blank_id
   \<and> busLocationUpdate update_blank_id [bus_534, bus_blank_id] ! 0 = bus_534"
proof -
  have none: "bus_id update_no_id = None \<or> bus_id update_no_id = Some []"
    and blank: "bus_id update_blank_id = None \<or> bus_id update_blank_id = Some []"
    by (simp_all add: sample_defs)
  have wf: "\<forall>b \<in> set [bus_534, bus_717]. \<exists>i. bus_id b = Some i \<and> i \<noteq> []"
    by (simp add: sample_defs)
  have ids: "bus_id ([bus_534, bus_blank_id] ! 1) = bus_id update_blank_id"
    "bus_id ([bus_534, bus_blank_id] ! 0) \<noteq> bus_id update_blank_id"
    by (simp_all add: sample_defs)
  have l: "1 < length [bus_534, bus_blank_id]" "0 < length [bus_534, bus_blank_id]"
    by simp_all
  from blank_identifier_update [OF none, of "[bus_534, bus_717]"] wf
  have a: "busLocationUpdate update_no_id [bus_534, bus_717] = [bus_534, bus_717]"
    by blast
  from blank_identifier_update [OF blank, of "[bus_534, bus_blank_id]"] l(1) ids(1)
  have b: "busLocationUpdate update_blank_id [bus_534, bus_blank_id] ! 1 = update_blank_id"
    by blast
  from blank_identifier_update [OF blank, of "[bus_534, bus_blank_id]"] l(2) ids(2)
  have "busLocationUpdate update_blank_id [bus_534, bus_blank_id] ! 0
      = [bus_534, bus_blank_id] ! 0"
    by blast
  then have c: "busLocationUpdate update_blank_id [bus_534, bus_blank_id] ! 0 = bus_534"
    by simp
  have m: "map bus_id [bus_534, bus_717] = [Some ''b1'', Some ''b2'']"
    by (simp add: sample_defs)
  from none blank m ids l a b c show ?thesis by blast
qed

section \<open>Properties of the statistics and of the filter\<close>

lemma status_counts_partition:
  "onTimeCount buses + delayedCount buses
     + length (filter (\<lambda>b. status b \<noteq> Some ''On Time'' \<and> status b \<noteq> Some ''Delayed'') buses)
   = activeBuses buses"
  by (induction buses) (simp_all add: onTimeCount_def delayedCount_def activeBuses_def)

lemma other_status_counted:
  assumes "b \<in> set buses" "status b \<noteq> Some ''On Time''" "status b \<noteq> Some ''Delayed''"
  shows "0 < length (filter (\<lambda>b. status b \<noteq> Some ''On Time'' \<and> status b \<noteq> Some ''Delayed'') buses)"
proof -
  from assms have
    "filter (\<lambda>b. status b \<noteq> Some ''On Time'' \<and> status b \<noteq> Some ''Delayed'') buses \<noteq> []"
    unfolding filter_empty_conv by blast
  then show ?thesis by simp
qed

text \<open>
  Claim C9. When the status of every bus is \<^verbatim>\<open>'On Time'\<close> or \<^verbatim>\<open>'Delayed'\<close>, the
  On Time counter plus the Delayed counter is the Active Buses counter; when some
  bus has any other status (or none), the two counters sum to strictly less than it.
\<close>

theorem status_counters_sum:
  "((\<forall>b \<in> set buses. status b = Some ''On Time'' \<or> status b = Some ''Delayed'')
      \<longrightarrow> onTimeCount buses + delayedCount buses = activeBuses buses)
   \<and> ((\<exists>b \<in> set buses. status b \<noteq> Some ''On Time'' \<and> status b \<noteq> Some ''Delayed'')
      \<longrightarrow> onTimeCount buses + delayedCount buses < activeBuses buses)"
proof (intro conjI impI)
  assume all: "\<forall>b \<in> set buses. status b = Some ''On Time'' \<or> status b = Some ''Delayed''"
  then have
    "filter (\<lambda>b. status b \<noteq> Some ''On Time'' \<and> status b \<noteq> Some ''Delayed'') buses = []"
    unfolding filter_empty_conv by blast
  with status_counts_partition [of buses]
  show "onTimeCount buses + delayedCount buses = activeBuses buses" by simp
next
  assume "\<exists>b \<in> set buses. status b \<noteq> Some ''On Time'' \<and> status b \<noteq> Some ''Delayed''"
  then obtain b where "b \<in> set buses" "status b \<noteq> Some ''On Time''"
    "status b \<noteq> Some ''Delayed''" by blast
  from other_status_counted [OF this] status_counts_partition [of buses]
  show "onTimeCount buses + delayedCount buses < activeBuses buses" by linarith
qed

theorem status_counters_sum_witness:
  "map status [bus_534, bus_717] = [Some ''On Time'', Some ''Delayed'']
   \<and> onTimeCount [bus_534, bus_717] + delayedCount [bus_534, bus_717]
       = activeBuses [bus_534, bus_717]
   \<and> activeBuses [bus_534, bus_717] = 2
   \<and> map status [bus_534, bus_breakdown] = [Some ''On Time'', Some ''Breakdown'']
   \<and> onTimeCount [bus_534, bus_breakdown] + delayedCount [bus_534, bus_breakdown]
       < activeBuses [bus_534, bus_breakdown]"
proof -
  have two: "\<forall>b \<in> set [bus_534, bus_717].
      status b = Some ''On Time'' \<or> status b = Some ''Delayed''"
    by (simp add: sample_defs)
  have other: "\<exists>b \<in> set [bus_534, bus_breakdown].
      status b \<noteq> Some ''On Time'' \<and> status b \<noteq> Some ''Delayed''"
    by (simp add: sample_defs)
  from status_counters_sum [of "[bus_534, bus_717]"] two
  have eq: "onTimeCount [bus_534, bus_717] + delayedCount [bus_534, bus_717]
      = activeBuses [bus_534, bus_717]"
    by blast
  from status_counters_sum [of "[bus_534, bus_breakdown]"] other
  have less: "onTimeCount [bus_534, bus_breakdown] + delayedCount [bus_534, bus_breakdown]
      < activeBuses [bus_534, bus_breakdown]"
    by blast
  have "activeBuses [bus_534, bus_717] = 2" by (simp add: activeBuses_def)
  moreover have "map status [bus_534, bus_717] = [Some ''On Time'', Some ''Delayed'']"
    and "map status [bus_534, bus_breakdown] = [Some ''On Time'', Some ''Breakdown'']"
    by (simp_all add: sample_defs)
  ultimately show ?thesis using eq less by blast
qed

text \<open>
  Claim C10. The filtered list is a subsequence of the full list: it keeps the
  relative order and holds no bus that the full list does not hold. With the empty
  search query and the empty route selection it is the full list. Both hold whatever
  the case mapping \<open>toLowerCase\<close> is.
\<close>

theorem filteredBuses_subseq:
  "subseq (filteredBuses toLowerCase selectedRoute searchQuery buses) buses
   \<and> set (filteredBuses toLowerCase selectedRoute searchQuery buses) \<subseteq> set buses
   \<and> filteredBuses toLowerCase [] [] buses = buses"
  by (simp add: filteredBuses_def matchesFilter_def)

section \<open>Properties of the vehicle state store\<close>

lemma store_apply_sequenceNumber:
  "sequenceNumber (fst (store_apply merge u st)) = sequenceNumber st + 1"
  by (simp add: store_apply_def Let_def)

lemma store_apply_returns:
  "fst (snd (store_apply merge u st)) = sequenceNumber st + 1"
  "seq (snd (snd (store_apply merge u st))) = sequenceNumber st + 1"
  by (simp_all add: store_apply_def Let_def)

lemma apply_all_sequenceNumber:
  "sequenceNumber (apply_all merge us st) = sequenceNumber st + length us"
  by (induction us arbitrary: st) (simp_all add: store_apply_sequenceNumber)

text \<open>
  Claim C2. Each \<^verbatim>\<open>apply\<close> increments the store's sequence number by exactly one,
  whatever vehicle the update names, and returns that number, also as the number of
  its diff event; so after N applies on the empty store the sequence number is N.
\<close>

theorem sequence_number_gapless:
  "sequenceNumber (fst (store_apply merge u st)) = sequenceNumber st + 1
   \<and> fst (snd (store_apply merge u st)) = sequenceNumber (fst (store_apply merge u st))
   \<and> seq (snd (snd (store_apply merge u st))) = sequenceNumber (fst (store_apply merge u st))
   \<and> sequenceNumber (apply_all merge us st) = sequenceNumber st + length us
   \<and> sequenceNumber (apply_all merge us empty_store) = length us"
  by (simp add: store_apply_sequenceNumber store_apply_returns apply_all_sequenceNumber
      empty_store_def)

section \<open>Applying the same update twice\<close>











end
